theory Spec2Isabelle
  imports Main "HOL-Library.Finite_Map" "HOL-Library.Multiset"
begin

section \<open>Strings, decimal printing and the output streams\<close>

text \<open>
  Go strings and byte slices are sequences of bytes; \<open>string\<close> (a list of 8-bit
  characters) models both. The program writes to two streams: standard output
  (\<open>fmt.Println\<close>, \<open>fmt.Printf\<close>) and the logger (\<open>log.Println\<close>, \<open>log.Printf\<close>).
  An event records the stream and the text written by one call, in program order.
  The logger's own timestamp prefix is not part of the text.
\<close>

type_synonym bytes = string

datatype event = Stdout string | Logged string

definition nl :: string where
  "nl = [CHR 0x0A]"

definition tab :: string where
  "tab = [CHR 0x09]"

text \<open>The verb \<open>%d\<close> on a non-negative and on a signed integer.\<close>

fun show_nat :: "nat \<Rightarrow> string" where
  "show_nat n =
     (if n < 10 then [''0123456789'' ! n]
      else show_nat (n div 10) @ [''0123456789'' ! (n mod 10)])"

declare show_nat.simps [simp del]

definition show_int :: "int \<Rightarrow> string" where
  "show_int i = (if i < 0 then ''-'' @ show_nat (nat (- i)) else show_nat (nat i))"

section \<open>Library functions on strings (package strings)\<close>

text \<open>
  \<open>strings.HasPrefix(s, prefix)\<close> is \<open>len(s) >= len(prefix) && s[:len(prefix)] == prefix\<close>.
  \<open>strings.Contains(s, substr)\<close> is \<open>strings.Index(s, substr) >= 0\<close>, where \<open>Index\<close> is
  the position of the first instance of \<open>substr\<close> in \<open>s\<close>, or \<open>-1\<close>.
\<close>

definition HasPrefix :: "string \<Rightarrow> string \<Rightarrow> bool" where
  "HasPrefix s p \<longleftrightarrow> length s \<ge> length p \<and> take (length p) s = p"

fun Index_from :: "nat \<Rightarrow> string \<Rightarrow> string \<Rightarrow> int" where
  "Index_from i [] sub = (if sub = [] then int i else - 1)"
| "Index_from i (c # cs) sub =
     (if HasPrefix (c # cs) sub then int i else Index_from (Suc i) cs sub)"

definition Index :: "string \<Rightarrow> string \<Rightarrow> int" where
  "Index s sub = Index_from 0 s sub"

definition Contains :: "string \<Rightarrow> string \<Rightarrow> bool" where
  "Contains s sub \<longleftrightarrow> Index s sub \<ge> 0"

section \<open>Content types (request.go)\<close>

text \<open>
  Modelled from the spec: the two media-type constants of the imported package
  \<open>github.com/ldez/mimetype\<close>, whose source is not part of the repository. The spec
  names the URL-encoded-form media type \<open>application/x-www-form-urlencoded\<close> and the
  multipart one \<open>multipart/form-data\<close>.
\<close>

definition ApplicationXWwwFormUrlencoded :: string where
  "ApplicationXWwwFormUrlencoded = ''application/x-www-form-urlencoded''"

definition MultipartFormData :: string where
  "MultipartFormData = ''multipart/form-data''"

definition isStringContentType :: "string \<Rightarrow> bool" where
  "isStringContentType contentType =
     (if HasPrefix contentType ''text/'' then True
      else if Contains contentType ''json'' then True
      else if Contains contentType ''xml'' then True
      else if contentType = ApplicationXWwwFormUrlencoded then True
      else False)"

section \<open>Configuration (config.go)\<close>

definition portMinValue :: int where
  "portMinValue = 1024"

definition portMaxValue :: int where
  "portMaxValue = 65535"

definition portDefaultValue :: int where
  "portDefaultValue = 3000"

record Config =
  Port :: int
  ShouldFormatJson :: bool
  IsHelpRequested :: bool
  MaxFormBodySizeInMB :: int

definition isPortInValidRange :: "int \<Rightarrow> int \<Rightarrow> int \<Rightarrow> bool" where
  "isPortInValidRange port mn mx \<longleftrightarrow> port > mn \<and> port < mx"

text \<open>
  \<open>isPortAvailable\<close> asks the operating system (\<open>net.Listen\<close>); its answer is an input of
  the model, the function \<open>avail\<close>. \<open>Validate\<close> returns the error message, or \<open>None\<close> for
  \<open>nil\<close>.
\<close>

definition Validate :: "(int \<Rightarrow> bool) \<Rightarrow> Config \<Rightarrow> string option" where
  "Validate avail c =
     (if \<not> isPortInValidRange (Port c) portMinValue portMaxValue then
        Some (''expecting port to be in the range between '' @ show_int portMinValue
              @ '' and '' @ show_int portMaxValue)
      else if \<not> avail (Port c) then
        Some (''can't listen on '' @ show_int (Port c) @ '', port already in use'')
      else None)"

section \<open>Go maps and their iteration order\<close>

text \<open>
  A Go \<open>map[string]V\<close> is a finite map. A \<open>for key, value := range m\<close> loop visits every
  key once, in an order the language leaves unspecified and that may differ from one
  loop to the next. The order is therefore an input of the model: \<open>range_map ks m body\<close>
  runs the loop body for the keys in the order \<open>ks\<close>, and \<open>iteration_of m ks\<close> says that
  \<open>ks\<close> is an order the runtime may choose for \<open>m\<close>.
\<close>

type_synonym Values = "(string, string list) fmap"

definition range_map :: "string list \<Rightarrow> (string, 'v) fmap \<Rightarrow> (string \<Rightarrow> 'v \<Rightarrow> event list) \<Rightarrow> event list" where
  "range_map ks m body =
     concat (map (\<lambda>k. case fmlookup m k of Some v \<Rightarrow> body k v | None \<Rightarrow> []) ks)"


text \<open>\<open>len(m)\<close> of a map is the number of its keys; \<open>len(m) > 0\<close> says there is one.\<close>

definition nonempty_map :: "(string, 'v) fmap \<Rightarrow> bool" where
  "nonempty_map m \<longleftrightarrow> fmdom m \<noteq> {||}"

section \<open>The request snapshot (request.go)\<close>

record basicAuth =
  username :: string
  password :: string
  ok :: bool

text \<open>
  \<open>multipart.Form\<close> and \<open>multipart.FileHeader\<close> of the standard library, with the fields
  the program reads. \<open>Size\<close> is an \<open>int64\<close>.
\<close>

record FileHeader =
  Filename :: string
  Header :: Values
  Size :: int

record multipart_Form =
  Value :: Values
  File :: "(string, FileHeader list) fmap"

text \<open>
  The struct \<open>Request\<close>. A \<open>nil\<close> map or pointer is \<open>None\<close>; \<open>BodyParseError\<close> holds the
  error's message. \<open>BasicAuth\<close> is a pointer that \<open>NewRequest\<close>, the only constructor,
  always sets, so it is modelled by the struct it points to. \<open>Body\<close> is a byte slice of
  which only the length and the contents are read, so \<open>nil\<close> and the empty slice are both
  the empty list.
\<close>

record Request =
  Method :: string
  Path :: string
  RequestUri :: string
  Protocol :: string
  Host :: string
  RemoteAddress :: string
  ContentLength :: int
  ContentType :: string
  Headers :: Values
  QueryParams :: Values
  BasicAuth :: basicAuth
  BodyIsString :: bool
  BodyParseError :: "string option"
  Body :: bytes
  BodyFormValues :: "Values option"
  BodyMultipartFormValues :: "multipart_Form option"

section \<open>Formatting a file size (the verb \<open>%.2f\<close>)\<close>

text \<open>
  \<open>float64(value.Size)\<close> rounds an integer to the nearest number with a 53-bit
  significand, ties to even; integers below \<open>2^53\<close> are exact. The two divisions by 1024
  are exact in binary floating point. \<open>%.2f\<close> prints the exact value rounded to two
  decimals, ties to even, with a minus sign for a negative number.
\<close>

fun exp53 :: "nat \<Rightarrow> nat" where
  "exp53 a = (if a < 2 ^ 53 then 0 else Suc (exp53 (a div 2)))"

declare exp53.simps [simp del]

definition round_half_even :: "nat \<Rightarrow> nat \<Rightarrow> nat" where
  "round_half_even num den =
     (let q = num div den; r = num mod den
      in if 2 * r > den \<or> (2 * r = den \<and> odd q) then q + 1 else q)"

definition float64_of_nat :: "nat \<Rightarrow> nat" where
  "float64_of_nat a = (let e = exp53 a in round_half_even a (2 ^ e) * 2 ^ e)"

definition size_MB :: "int \<Rightarrow> string" where
  "size_MB sz =
     (let h = round_half_even (float64_of_nat (nat \<bar>sz\<bar>) * 100) (1024 * 1024)
      in (if sz < 0 then ''-'' else []) @ show_nat (h div 100) @ ''.''
         @ [''0123456789'' ! (h mod 100 div 10), ''0123456789'' ! (h mod 10)])"

text \<open>The verb \<open>%s\<close> on a \<open>[]string\<close>: the elements between brackets, separated by spaces.\<close>

fun join_sp :: "string list \<Rightarrow> string" where
  "join_sp [] = []"
| "join_sp [x] = x"
| "join_sp (x # y # ys) = x @ '' '' @ join_sp (y # ys)"

definition show_strings :: "string list \<Rightarrow> string" where
  "show_strings xs = ''['' @ join_sp xs @ '']''"

section \<open>The JSON library and the iteration orders of one report\<close>

text \<open>
  \<open>json.Valid\<close> and \<open>json.Indent\<close> belong to the standard library; the report is defined
  for any behaviour of the two. \<open>Indent b prefix indent\<close> is the error message or the
  text written to the buffer.
\<close>

record json =
  Valid :: "bytes \<Rightarrow> bool"
  Indent :: "bytes \<Rightarrow> string \<Rightarrow> string \<Rightarrow> string + string"

text \<open>
  One report ranges over the authorization map, the headers, the query parameters, the
  form values, the multipart values, the multipart files and, for the part at position
  \<open>i\<close> of file field \<open>key\<close>, over that part's headers.
\<close>

record orders =
  auth_keys :: "string list"
  header_keys :: "string list"
  query_keys :: "string list"
  form_keys :: "string list"
  value_keys :: "string list"
  file_keys :: "string list"
  part_header_keys :: "string \<Rightarrow> nat \<Rightarrow> string list"

section \<open>Rendering (request.go)\<close>

definition printStrMap :: "string list \<Rightarrow> (string, string) fmap \<Rightarrow> event list" where
  "printStrMap ks m =
     range_map ks m (\<lambda>key value. [Stdout (tab @ key @ '': '' @ value @ nl)])"

definition printStrSliceMap :: "string list \<Rightarrow> Values \<Rightarrow> event list" where
  "printStrSliceMap ks m =
     range_map ks m (\<lambda>key vals. map (\<lambda>value. Stdout (tab @ key @ '': '' @ value @ nl)) vals)"

definition printBytes :: "bytes \<Rightarrow> event list" where
  "printBytes b = [Stdout (b @ nl)]"

text \<open>\<open>printJsonIndented\<close> returns the error (\<open>None\<close> for \<open>nil\<close>) and what it printed.\<close>

definition printJsonIndented :: "json \<Rightarrow> bytes \<Rightarrow> string option \<times> event list" where
  "printJsonIndented J b =
     (if \<not> Valid J b then (Some ''invalid json'', [])
      else case Indent J b [] ''  '' of
             Inl err \<Rightarrow> (Some err, [])
           | Inr jsonStr \<Rightarrow> (None, [Stdout (jsonStr @ nl)]))"

definition printHeaders :: "orders \<Rightarrow> Request \<Rightarrow> event list" where
  "printHeaders os r =
     (if nonempty_map (Headers r)
      then Stdout (''Headers:'' @ nl) # printStrSliceMap (header_keys os) (Headers r)
      else [])"

definition auth_map :: "basicAuth \<Rightarrow> (string, string) fmap" where
  "auth_map a =
     fmupd ''password'' (password a) (fmupd ''username'' (username a)
       (fmupd ''type'' ''Basic'' fmempty))"

definition printAuth :: "orders \<Rightarrow> Request \<Rightarrow> event list" where
  "printAuth os r =
     (if ok (BasicAuth r)
      then Stdout (''Authorization:'' @ nl) # printStrMap (auth_keys os) (auth_map (BasicAuth r))
      else [])"

definition printQueryParams :: "orders \<Rightarrow> Request \<Rightarrow> event list" where
  "printQueryParams os r =
     (if nonempty_map (QueryParams r)
      then Stdout (''Query params:'' @ nl) # printStrSliceMap (query_keys os) (QueryParams r)
      else [])"

text \<open>The body of the loop over the parts of one file field, for one part.\<close>

definition printFilePart :: "string list \<Rightarrow> FileHeader \<Rightarrow> event list" where
  "printFilePart hks value =
     Stdout (tab @ tab @ Filename value @ '' ('' @ size_MB (Size value) @ '' MB)'' @ nl)
     # (if nonempty_map (Header value)
        then Stdout (tab @ tab @ ''Headers:'' @ nl)
             # range_map hks (Header value) (\<lambda>_ i. [Stdout (tab @ tab @ tab @ show_strings i @ nl)])
        else [])"

definition printFiles :: "orders \<Rightarrow> (string, FileHeader list) fmap \<Rightarrow> event list" where
  "printFiles os files =
     range_map (file_keys os) files
       (\<lambda>key vals. Stdout (tab @ key @ '':'' @ nl)
          # concat (map (\<lambda>(i, value). printFilePart (part_header_keys os key i) value)
                      (enumerate 0 vals)))"

definition printBody :: "Config \<Rightarrow> json \<Rightarrow> orders \<Rightarrow> Request \<Rightarrow> event list" where
  "printBody Cfg J os r =
     (if length (Body r) = 0 then []
      else if BodyIsString r then
        (if Contains (ContentType r) ''json'' then
           (if Valid J (Body r) then
              Stdout (''Body (valid json):'' @ nl)
              # (if ShouldFormatJson Cfg then
                   (case printJsonIndented J (Body r) of
                      (Some err, out) \<Rightarrow>
                        out @ Logged (''error indenting json body: '' @ err @ nl) # printBytes (Body r)
                    | (None, out) \<Rightarrow> out)
                 else [])
            else Stdout (''Body (invalid json):'' @ nl) # printBytes (Body r))
         else Stdout (''Body:'' @ nl) # printBytes (Body r))
      else case BodyFormValues r of
        Some fv \<Rightarrow> Stdout (''Body (Form values):'' @ nl) # printStrSliceMap (form_keys os) fv
      | None \<Rightarrow>
         (case BodyMultipartFormValues r of
            Some mf \<Rightarrow>
              Stdout (''Body (Multipart form values):'' @ nl)
              # printStrSliceMap (value_keys os) (Value mf) @ printFiles os (File mf)
          | None \<Rightarrow>
              [Stdout (''Body (unknown): lenght '' @ show_nat (length (Body r)) @ '' bytes'' @ nl)]))"

definition delimiter :: string where
  "delimiter = ''-------------------------''"

definition Print :: "Config \<Rightarrow> json \<Rightarrow> orders \<Rightarrow> Request \<Rightarrow> event list" where
  "Print Cfg J os r =
     Logged (Method r @ '' '' @ Path r @ '' '' @ Protocol r @ nl)
     # (if Path r \<noteq> RequestUri r then [Stdout (''Request URI: '' @ RequestUri r @ nl)] else [])
     @ [Stdout (''Host: '' @ Host r @ nl), Stdout (''Remote Address: '' @ RemoteAddress r @ nl)]
     @ printAuth os r @ printHeaders os r @ printQueryParams os r @ printBody Cfg J os r
     @ [Stdout (delimiter @ nl)]"

section \<open>The inbound request and the standard library calls made on it\<close>

text \<open>
  \<open>NewRequest\<close> reads fields of the \<open>*http.Request\<close> it is given and calls methods of
  the standard library on it. The record below holds the fields, and for each library
  call the result that call has on this request:
  \<^item> \<open>r_URL_Query\<close> is \<open>r.URL.Query()\<close> and \<open>r_BasicAuth\<close> is \<open>r.BasicAuth()\<close>;
  \<^item> \<open>r_Body_ReadAll\<close> is the result of \<open>io.ReadAll(r.Body)\<close>, an error message or the
    bytes, and \<open>r_Body_Close\<close> the result of \<open>r.Body.Close()\<close>;
  \<^item> \<open>r_ParseForm\<close> is the error \<open>r.ParseForm()\<close> returns, with \<open>r.Form\<close> after the call;
  \<^item> \<open>r_ParseMultipartForm maxMemory\<close> is the error \<open>r.ParseMultipartForm(maxMemory)\<close>
    returns, with \<open>r.MultipartForm\<close> after the call;
  \<^item> \<open>r_MultipartForm\<close> is the field \<open>r.MultipartForm\<close> when the handler is entered
    (\<open>nil\<close> on a request the server hands over, as nothing has parsed it yet);
    \<open>ParseForm\<close> leaves it unchanged.
  Every theorem about \<open>NewRequest\<close> holds for any results of these calls.
\<close>

record http_Request =
  r_Method :: string
  r_URL_Path :: string
  r_URL_Query :: Values
  r_RequestURI :: string
  r_Proto :: string
  r_Host :: string
  r_RemoteAddr :: string
  r_ContentLength :: int
  r_Header :: Values
  r_BasicAuth :: "string \<times> string \<times> bool"
  r_MultipartForm :: "multipart_Form option"
  r_Body_ReadAll :: "string + bytes"
  r_Body_Close :: "string option"
  r_ParseForm :: "string option \<times> Values"
  r_ParseMultipartForm :: "int \<Rightarrow> string option \<times> multipart_Form option"

text \<open>
  \<open>Header.Get(key)\<close> on a key in canonical form: the first value stored under the key, or
  the empty string.
\<close>

definition Header_Get :: "Values \<Rightarrow> string \<Rightarrow> string" where
  "Header_Get h key = (case fmlookup h key of None \<Rightarrow> [] | Some [] \<Rightarrow> [] | Some (v # _) \<Rightarrow> v)"

text \<open>\<open>int64(x) << 20\<close>: the product with \<open>2^20\<close>, wrapped to a signed 64-bit integer.\<close>

definition shl20_int64 :: "int \<Rightarrow> int" where
  "shl20_int64 x = (x * 2 ^ 20 + 2 ^ 63) mod 2 ^ 64 - 2 ^ 63"

section \<open>Building the snapshot (request.go)\<close>

text \<open>
  \<open>readBodyAsBytes\<close> returns the bytes, the error, and what it logged. On a read error it
  returns before the deferred close is registered.
\<close>

definition readBodyAsBytes :: "http_Request \<Rightarrow> bytes \<times> string option \<times> event list" where
  "readBodyAsBytes h =
     (case r_Body_ReadAll h of
        Inl err \<Rightarrow> ([], Some (''error reading request body: '' @ err), [])
      | Inr b \<Rightarrow>
          (b, None,
           case r_Body_Close h of
             Some err \<Rightarrow> [Logged (''error closing request body: '' @ err @ nl)]
           | None \<Rightarrow> []))"

text \<open>
  \<open>NewRequest\<close> returns the pointer to the snapshot (\<open>None\<close> for \<open>nil\<close>), the error
  (\<open>None\<close> for \<open>nil\<close>), and what was logged on the way.
\<close>

definition NewRequest :: "Config \<Rightarrow> http_Request \<Rightarrow> (Request option \<times> string option) \<times> event list" where
  "NewRequest Cfg h =
     (let method = (if r_Method h = [] then ''GET'' else r_Method h);
          (username, password, ok) = r_BasicAuth h;
          auth = \<lparr>username = username, password = password, ok = ok\<rparr>;
          contentType = Header_Get (r_Header h) ''Content-Type'';
          bodyIsString = isStringContentType contentType;
          (body, readError, logged) =
            (if isStringContentType contentType then readBodyAsBytes h else ([], None, []));
          (bodyParseError, bodyFormValues, multipartForm) =
            (if contentType = ApplicationXWwwFormUrlencoded then
               (case r_ParseForm h of
                  (None, form) \<Rightarrow> (None, Some form, r_MultipartForm h)
                | (Some err, form) \<Rightarrow>
                    (Some (''error parsing form values: '' @ err), None, r_MultipartForm h))
             else if contentType = MultipartFormData then
               (case r_ParseMultipartForm h (shl20_int64 (MaxFormBodySizeInMB Cfg)) of
                  (None, mf) \<Rightarrow> (None, None, mf)
                | (Some err, mf) \<Rightarrow>
                    (Some (''error parsing multipart form values: '' @ err), None, mf))
             else (readError, None, r_MultipartForm h))
      in ((Some \<lparr>Method = method,
                 Path = r_URL_Path h,
                 RequestUri = r_RequestURI h,
                 Protocol = r_Proto h,
                 Host = r_Host h,
                 RemoteAddress = r_RemoteAddr h,
                 ContentLength = r_ContentLength h,
                 ContentType = contentType,
                 Headers = r_Header h,
                 QueryParams = r_URL_Query h,
                 BasicAuth = auth,
                 BodyIsString = bodyIsString,
                 BodyParseError = bodyParseError,
                 Body = body,
                 BodyFormValues = bodyFormValues,
                 BodyMultipartFormValues = multipartForm\<rparr>, None), logged))"

section \<open>The handler (main.go)\<close>

text \<open>
  The \<open>http.ResponseWriter\<close>: the status line is fixed by the first \<open>WriteHeader\<close> call; a
  later call is superfluous and changes nothing.
\<close>

record ResponseWriter =
  wroteHeader :: bool
  status :: nat

definition newResponseWriter :: ResponseWriter where
  "newResponseWriter = \<lparr>wroteHeader = False, status = 0\<rparr>"

definition WriteHeader :: "ResponseWriter \<Rightarrow> nat \<Rightarrow> ResponseWriter" where
  "WriteHeader w code = (if wroteHeader w then w else w\<lparr>wroteHeader := True, status := code\<rparr>)"

definition StatusInternalServerError :: nat where
  "StatusInternalServerError = 500"

definition StatusAccepted :: nat where
  "StatusAccepted = 202"

text \<open>The function registered for \<open>/\<close> in \<open>runHttpServer\<close>.\<close>

definition handler :: "Config \<Rightarrow> json \<Rightarrow> orders \<Rightarrow> ResponseWriter \<Rightarrow> http_Request \<Rightarrow> ResponseWriter \<times> event list" where
  "handler Cfg J os w h =
     (let ((req, err), logged) = NewRequest Cfg h;
          (w1, out1) = (case err of
                          Some e \<Rightarrow> (WriteHeader w StatusInternalServerError, [Logged (e @ nl)])
                        | None \<Rightarrow> (w, []));
          out2 = (case req of Some r \<Rightarrow> Print Cfg J os r | None \<Rightarrow> []);
          w2 = WriteHeader w1 StatusAccepted
      in (w2, logged @ out1 @ out2))"

section \<open>Which iteration orders fit a snapshot, and which body branches it populates\<close>



text \<open>
  The three body representations of a snapshot: the raw text buffer (flagged by
  \<open>BodyIsString\<close>), the URL-encoded form mapping, the multipart form. \<open>populated r\<close> counts
  those that are set.
\<close>

definition populated :: "Request \<Rightarrow> nat" where
  "populated r =
     (if BodyIsString r then 1 else 0)
     + (if BodyFormValues r \<noteq> None then 1 else 0)
     + (if BodyMultipartFormValues r \<noteq> None then 1 else 0)"

text \<open>The snapshot \<open>NewRequest\<close> returns, without the error and the log.\<close>

definition snapshot_of :: "Config \<Rightarrow> http_Request \<Rightarrow> Request option" where
  "snapshot_of Cfg h = fst (fst (NewRequest Cfg h))"

section \<open>Concrete requests\<close>

text \<open>The configuration with the default values of the command-line flags.\<close>

definition default_Cfg :: Config where
  "default_Cfg = \<lparr>Port = portDefaultValue, ShouldFormatJson = True, IsHelpRequested = False,
                   MaxFormBodySizeInMB = 10\<rparr>"

text \<open>A request without headers, query string or body; the requests below change it.\<close>

definition bare_request :: http_Request where
  "bare_request =
     \<lparr>r_Method = ''POST'', r_URL_Path = ''/submit'', r_URL_Query = fmempty,
      r_RequestURI = ''/submit'', r_Proto = ''HTTP/1.1'', r_Host = ''localhost:3000'',
      r_RemoteAddr = ''127.0.0.1:50000'', r_ContentLength = 0, r_Header = fmempty,
      r_BasicAuth = ([], [], False), r_MultipartForm = None,
      r_Body_ReadAll = Inr [], r_Body_Close = None,
      r_ParseForm = (None, fmempty),
      r_ParseMultipartForm = (\<lambda>_. (Some ''request Content-Type isn't multipart/form-data'', None))\<rparr>"

definition with_body :: "string \<Rightarrow> bytes \<Rightarrow> http_Request \<Rightarrow> http_Request" where
  "with_body ct b h =
     h\<lparr>r_Header := fmupd ''Content-Type'' [ct] (r_Header h),
       r_ContentLength := int (length b), r_Body_ReadAll := Inr b\<rparr>"

text \<open>
  A POST of the form body \<open>a=1&a=2&b=x\<close> with content type exactly
  \<open>application/x-www-form-urlencoded\<close>; \<open>pf\<close> is what \<open>ParseForm\<close> answers.
\<close>

definition form_a_b :: Values where
  "form_a_b = fmupd ''b'' [''x''] (fmupd ''a'' [''1'', ''2''] fmempty)"

definition form_post :: "string option \<times> Values \<Rightarrow> http_Request" where
  "form_post pf =
     (with_body ''application/x-www-form-urlencoded'' ''a=1&a=2&b=x'' bare_request)
       \<lparr>r_ParseForm := pf\<rparr>"

text \<open>
  \<open>GET /submit?a=1\<close> with the same content type and the body \<open>x=y\<close>. For a GET,
  \<open>ParseForm\<close> does not read the body and fills \<open>r.Form\<close> from the query string.
\<close>

definition form_get :: http_Request where
  "form_get =
     (with_body ''application/x-www-form-urlencoded'' ''x=y'' bare_request)
       \<lparr>r_Method := ''GET'', r_RequestURI := ''/submit?a=1'',
        r_URL_Query := fmupd ''a'' [''1''] fmempty,
        r_ParseForm := (None, fmupd ''a'' [''1''] fmempty)\<rparr>"

text \<open>
  A multipart upload with the field \<open>name=foo\<close> and the file part \<open>upload\<close> of 3,145,728
  bytes, sent under the content type \<open>ct\<close>; \<open>pm\<close> is what \<open>ParseMultipartForm\<close> answers.
  The body stream is not a parameter of the snapshot here: a multipart content type is
  not read as text.
\<close>

definition upload_form :: multipart_Form where
  "upload_form =
     \<lparr>Value = fmupd ''name'' [''foo''] fmempty,
      File = fmupd ''upload''
               [\<lparr>Filename = ''upload.bin'', Header = fmempty, Size = 3145728\<rparr>] fmempty\<rparr>"

definition multipart_upload :: "string \<Rightarrow> (int \<Rightarrow> string option \<times> multipart_Form option) \<Rightarrow> http_Request" where
  "multipart_upload ct pm =
     bare_request\<lparr>r_Header := fmupd ''Content-Type'' [ct] fmempty,
                  r_ContentLength := 3146100, r_ParseMultipartForm := pm\<rparr>"

text \<open>A POST of the JSON text \<open>[1,2]\<close>, and a \<open>GET /\<close> with two headers and no body.\<close>

definition json_post :: http_Request where
  "json_post = with_body ''application/json'' ''[1,2]'' bare_request"


text \<open>The snapshots of \<open>form_get\<close>, \<open>json_post\<close> and \<open>two_headers_get\<close>, written out.\<close>

definition form_get_snapshot :: Request where
  "form_get_snapshot =
     \<lparr>Method = ''GET'', Path = ''/submit'', RequestUri = ''/submit?a=1'',
      Protocol = ''HTTP/1.1'', Host = ''localhost:3000'',
      RemoteAddress = ''127.0.0.1:50000'', ContentLength = 3,
      ContentType = ''application/x-www-form-urlencoded'',
      Headers = fmupd ''Content-Type'' [''application/x-www-form-urlencoded''] fmempty,
      QueryParams = fmupd ''a'' [''1''] fmempty,
      BasicAuth = \<lparr>username = [], password = [], ok = False\<rparr>,
      BodyIsString = True, BodyParseError = None, Body = ''x=y'',
      BodyFormValues = Some (fmupd ''a'' [''1''] fmempty),
      BodyMultipartFormValues = None\<rparr>"

definition json_post_snapshot :: Request where
  "json_post_snapshot =
     \<lparr>Method = ''POST'', Path = ''/submit'', RequestUri = ''/submit'',
      Protocol = ''HTTP/1.1'', Host = ''localhost:3000'',
      RemoteAddress = ''127.0.0.1:50000'', ContentLength = 5,
      ContentType = ''application/json'',
      Headers = fmupd ''Content-Type'' [''application/json''] fmempty,
      QueryParams = fmempty,
      BasicAuth = \<lparr>username = [], password = [], ok = False\<rparr>,
      BodyIsString = True, BodyParseError = None, Body = ''[1,2]'',
      BodyFormValues = None, BodyMultipartFormValues = None\<rparr>"


text \<open>
  Iteration orders: none (for a report that ranges over empty maps only), and the two
  orders of the headers of \<open>two_headers_get\<close>.
\<close>

definition no_keys :: orders where
  "no_keys = \<lparr>auth_keys = [], header_keys = [], query_keys = [], form_keys = [],
              value_keys = [], file_keys = [], part_header_keys = (\<lambda>_ _. [])\<rparr>"



text \<open>
  A behaviour of the JSON library that accepts the text \<open>[1,2]\<close>, indents it over four
  lines, and rejects every other text.
\<close>

definition json_for_1_2 :: json where
  "json_for_1_2 =
     \<lparr>Valid = (\<lambda>b. b = ''[1,2]''),
      Indent = (\<lambda>b prefix indent.
                  if b = ''[1,2]'' then Inr (''['' @ nl @ indent @ ''1,'' @ nl @ indent @ ''2'' @ nl @ '']'')
                  else Inl ''invalid character'')\<rparr>"

section \<open>Facts used to evaluate the model on concrete requests\<close>

lemmas content_type_defs =
  isStringContentType_def HasPrefix_def Contains_def Index_def
  ApplicationXWwwFormUrlencoded_def MultipartFormData_def

lemmas snapshot_defs =
  snapshot_of_def NewRequest_def Let_def readBodyAsBytes_def Header_Get_def
  with_body_def bare_request_def

lemmas print_defs =
  Print_def printAuth_def printHeaders_def printQueryParams_def printBody_def
  printStrSliceMap_def printStrMap_def printBytes_def printFiles_def printFilePart_def
  range_map_def nonempty_map_def delimiter_def

lemma size_MB_3MB: "size_MB 3145728 = ''3.00''"
  by (simp add: size_MB_def float64_of_nat_def round_half_even_def exp53.simps show_nat.simps Let_def)

lemma size_MB_examples:
  "size_MB 1572864 = ''1.50''"
  "size_MB 131072 = ''0.12''"
  "size_MB 0 = ''0.00''"
  by (simp_all add: size_MB_def float64_of_nat_def round_half_even_def exp53.simps show_nat.simps Let_def)

section \<open>The content classifier\<close>

lemma HasPrefix_iff: "HasPrefix s p \<longleftrightarrow> (\<exists>r. s = p @ r)"
proof
  assume "HasPrefix s p"
  then have "s = p @ drop (length p) s"
    by (metis HasPrefix_def append_take_drop_id)
  then show "\<exists>r. s = p @ r" ..
next
  assume "\<exists>r. s = p @ r"
  then show "HasPrefix s p" by (auto simp: HasPrefix_def)
qed

lemma infix_Cons_iff:
  "(\<exists>p q. c # cs = p @ sub @ q) \<longleftrightarrow> (\<exists>r. c # cs = sub @ r) \<or> (\<exists>p q. cs = p @ sub @ q)"
proof
  assume "\<exists>p q. c # cs = p @ sub @ q"
  then obtain p q where pq: "c # cs = p @ sub @ q" by blast
  show "(\<exists>r. c # cs = sub @ r) \<or> (\<exists>p q. cs = p @ sub @ q)"
  proof (cases p)
    case Nil
    with pq show ?thesis by auto
  next
    case (Cons a p')
    with pq have "cs = p' @ sub @ q" by simp
    then show ?thesis by blast
  qed
next
  assume "(\<exists>r. c # cs = sub @ r) \<or> (\<exists>p q. cs = p @ sub @ q)"
  then show "\<exists>p q. c # cs = p @ sub @ q"
  proof
    assume "\<exists>r. c # cs = sub @ r"
    then obtain r where "c # cs = [] @ sub @ r" by auto
    then show ?thesis by blast
  next
    assume "\<exists>p q. cs = p @ sub @ q"
    then obtain p q where "cs = p @ sub @ q" by blast
    then have "c # cs = (c # p) @ sub @ q" by simp
    then show ?thesis by blast
  qed
qed

lemma Index_from_nonneg_iff: "Index_from i s sub \<ge> 0 \<longleftrightarrow> (\<exists>p q. s = p @ sub @ q)"
proof (induction s arbitrary: i)
  case Nil
  show ?case by auto
next
  case (Cons c cs)
  show ?case
    unfolding infix_Cons_iff [of c cs sub]
    by (simp add: Cons.IH HasPrefix_iff)
qed

lemma Contains_iff: "Contains s sub \<longleftrightarrow> (\<exists>p q. s = p @ sub @ q)"
  by (simp add: Contains_def Index_def Index_from_nonneg_iff)

text \<open>
  Claim C6. For every content-type string, \<open>isStringContentType\<close> (the spec's
  \<open>isTextLike\<close>) returns true if and only if the string starts with \<open>text/\<close>, or contains
  \<open>json\<close>, or contains \<open>xml\<close>, or is exactly \<open>application/x-www-form-urlencoded\<close>. It is
  a function of the string alone.
\<close>

theorem isStringContentType_iff:
  "isStringContentType ct \<longleftrightarrow>
     (\<exists>r. ct = ''text/'' @ r) \<or> (\<exists>p q. ct = p @ ''json'' @ q) \<or> (\<exists>p q. ct = p @ ''xml'' @ q)
     \<or> ct = ''application/x-www-form-urlencoded''"
  unfolding isStringContentType_def HasPrefix_iff Contains_iff ApplicationXWwwFormUrlencoded_def
  by simp

lemma isStringContentType_examples:
  "isStringContentType ''text/plain; charset=utf-8''"
  "isStringContentType ''application/ld+json''"
  "isStringContentType ''image/svg+xml''"
  "\<not> isStringContentType ''application/octet-stream''"
  "\<not> isStringContentType ''application/x-www-form-urlencoded; charset=utf-8''"
  by (simp_all add: content_type_defs)

section \<open>What \<open>NewRequest\<close> returns\<close>

lemma NewRequest_no_error: "snd (fst (NewRequest Cfg h)) = None"
  by (simp add: NewRequest_def Let_def case_prod_beta)

lemma NewRequest_returns_snapshot: "\<exists>r. fst (fst (NewRequest Cfg h)) = Some r"
  by (simp add: NewRequest_def Let_def case_prod_beta)

lemma snapshot_fields:
  assumes "snapshot_of Cfg h = Some r"
  shows "ContentType r = Header_Get (r_Header h) ''Content-Type''"
    and "BodyIsString r = isStringContentType (ContentType r)"
    and "Body r = (if isStringContentType (ContentType r)
                   then (case r_Body_ReadAll h of Inl e \<Rightarrow> [] | Inr b \<Rightarrow> b) else [])"
    and "BodyFormValues r =
           (if ContentType r = ApplicationXWwwFormUrlencoded
            then (case r_ParseForm h of (None, form) \<Rightarrow> Some form | (Some e, form) \<Rightarrow> None)
            else None)"
    and "BodyMultipartFormValues r =
           (if ContentType r = ApplicationXWwwFormUrlencoded then r_MultipartForm h
            else if ContentType r = MultipartFormData
            then snd (r_ParseMultipartForm h (shl20_int64 (MaxFormBodySizeInMB Cfg)))
            else r_MultipartForm h)"
    and "Path r = r_URL_Path h" and "RequestUri r = r_RequestURI h"
    and "Headers r = r_Header h" and "QueryParams r = r_URL_Query h"
proof -
  from assms have r: "fst (fst (NewRequest Cfg h)) = Some r" by (simp add: snapshot_of_def)
  show "ContentType r = Header_Get (r_Header h) ''Content-Type''"
    using r by (auto simp: NewRequest_def Let_def case_prod_beta)
  then show "BodyIsString r = isStringContentType (ContentType r)"
    using r by (auto simp: NewRequest_def Let_def case_prod_beta)
  show "Path r = r_URL_Path h" using r by (auto simp: NewRequest_def Let_def case_prod_beta)
  show "RequestUri r = r_RequestURI h" using r by (auto simp: NewRequest_def Let_def case_prod_beta)
  show "Headers r = r_Header h" using r by (auto simp: NewRequest_def Let_def case_prod_beta)
  show "QueryParams r = r_URL_Query h" using r by (auto simp: NewRequest_def Let_def case_prod_beta)
  show "Body r = (if isStringContentType (ContentType r)
                   then (case r_Body_ReadAll h of Inl e \<Rightarrow> [] | Inr b \<Rightarrow> b) else [])"
    using r by (auto simp: NewRequest_def Let_def case_prod_beta readBodyAsBytes_def split: sum.splits)
  show "BodyFormValues r =
           (if ContentType r = ApplicationXWwwFormUrlencoded
            then (case r_ParseForm h of (None, form) \<Rightarrow> Some form | (Some e, form) \<Rightarrow> None)
            else None)"
    using r by (auto simp: NewRequest_def Let_def case_prod_beta split: option.splits)
  show "BodyMultipartFormValues r =
           (if ContentType r = ApplicationXWwwFormUrlencoded then r_MultipartForm h
            else if ContentType r = MultipartFormData
            then snd (r_ParseMultipartForm h (shl20_int64 (MaxFormBodySizeInMB Cfg)))
            else r_MultipartForm h)"
    using r by (auto simp: NewRequest_def Let_def case_prod_beta split: option.splits)
qed

lemma not_text_MultipartFormData: "\<not> isStringContentType MultipartFormData"
  by (simp add: isStringContentType_def MultipartFormData_def ApplicationXWwwFormUrlencoded_def
      HasPrefix_def Contains_def Index_def)

lemma text_ApplicationXWwwFormUrlencoded: "isStringContentType ApplicationXWwwFormUrlencoded"
  by (simp add: isStringContentType_def)

lemma snapshot_form_post:
  "snapshot_of Cfg (form_post pf) =
     Some \<lparr>Method = ''POST'', Path = ''/submit'', RequestUri = ''/submit'',
            Protocol = ''HTTP/1.1'', Host = ''localhost:3000'',
            RemoteAddress = ''127.0.0.1:50000'', ContentLength = 11,
            ContentType = ''application/x-www-form-urlencoded'',
            Headers = fmupd ''Content-Type'' [''application/x-www-form-urlencoded''] fmempty,
            QueryParams = fmempty,
            BasicAuth = \<lparr>username = [], password = [], ok = False\<rparr>,
            BodyIsString = True,
            BodyParseError = (case fst pf of None \<Rightarrow> None
                              | Some err \<Rightarrow> Some (''error parsing form values: '' @ err)),
            Body = ''a=1&a=2&b=x'',
            BodyFormValues = (case fst pf of None \<Rightarrow> Some (snd pf) | Some err \<Rightarrow> None),
            BodyMultipartFormValues = None\<rparr>"
  by (cases pf) (simp add: form_post_def snapshot_defs content_type_defs split: option.splits)

lemma snapshot_form_get: "snapshot_of Cfg form_get = Some form_get_snapshot"
  by (simp add: form_get_def form_get_snapshot_def snapshot_defs content_type_defs)

lemma snapshot_json_post: "snapshot_of Cfg json_post = Some json_post_snapshot"
  by (simp add: json_post_def json_post_snapshot_def snapshot_defs content_type_defs)

section \<open>The response status\<close>

text \<open>
  Claim C1. For every inbound request, whatever the body read, the form parser and the
  multipart parser answer and whatever error is recorded on the snapshot, the handler
  leaves the response with status 202 (Accepted): \<open>NewRequest\<close> never returns an error,
  so the only \<open>WriteHeader\<close> call that takes effect is the one with \<open>StatusAccepted\<close>.
\<close>

theorem handler_status_accepted:
  "status (fst (handler Cfg J os newResponseWriter h)) = 202
   \<and> wroteHeader (fst (handler Cfg J os newResponseWriter h))"
proof -
  obtain req err logged where n: "NewRequest Cfg h = ((req, err), logged)"
    by (metis surj_pair)
  with NewRequest_no_error [of Cfg h] have "err = None" by simp
  with n show ?thesis
    by (simp add: handler_def WriteHeader_def newResponseWriter_def StatusAccepted_def)
qed

section \<open>The body representations of a snapshot\<close>

text \<open>
  Claim C2, as stated, fails: for \<open>GET /submit?a=1\<close> with content type
  \<open>application/x-www-form-urlencoded\<close> and body \<open>x=y\<close> the snapshot has the raw text
  buffer (\<open>BodyIsString\<close>) and the form mapping at once, two populated branches.
\<close>

theorem form_get_populates_two_branches:
  "map_option populated (snapshot_of default_Cfg form_get) = Some 2"
  by (simp add: snapshot_form_get populated_def form_get_snapshot_def)

text \<open>
  Claim C2, amended. For every inbound request (whose \<open>MultipartForm\<close> field is unset when
  the handler is entered) the branches are selected by the content-type string:
  \<open>BodyIsString\<close> is \<open>isStringContentType\<close> of it, a form mapping occurs only for the
  URL-encoded type and a multipart form only for the multipart type. Unless the content
  type is exactly \<open>application/x-www-form-urlencoded\<close>, at most one branch is populated.
  For that content type the raw text buffer is populated, the multipart form is not, and
  the form mapping is populated as well exactly when form parsing succeeds.
\<close>

theorem NewRequest_body_branches:
  assumes "r_MultipartForm h = None" and "snapshot_of Cfg h = Some r"
  shows "BodyIsString r = isStringContentType (ContentType r)
       \<and> (BodyFormValues r \<noteq> None \<longrightarrow> ContentType r = ApplicationXWwwFormUrlencoded)
       \<and> (BodyMultipartFormValues r \<noteq> None \<longrightarrow> ContentType r = MultipartFormData)
       \<and> (ContentType r \<noteq> ApplicationXWwwFormUrlencoded \<longrightarrow> populated r \<le> 1)
       \<and> (ContentType r = ApplicationXWwwFormUrlencoded \<longrightarrow>
            BodyIsString r \<and> BodyMultipartFormValues r = None
            \<and> (BodyFormValues r \<noteq> None \<longleftrightarrow> fst (r_ParseForm h) = None))"
proof -
  note f = snapshot_fields [OF assms(2)]
  have 1: "BodyIsString r = isStringContentType (ContentType r)" by (rule f(2))
  have 2: "BodyFormValues r \<noteq> None \<longrightarrow> ContentType r = ApplicationXWwwFormUrlencoded"
    by (simp add: f(4))
  have 3: "BodyMultipartFormValues r \<noteq> None \<longrightarrow> ContentType r = MultipartFormData"
    by (simp add: f(5) assms(1))
  have 4: "ContentType r \<noteq> ApplicationXWwwFormUrlencoded \<longrightarrow> populated r \<le> 1"
  proof
    assume ne: "ContentType r \<noteq> ApplicationXWwwFormUrlencoded"
    then have form: "BodyFormValues r = None" by (simp add: f(4))
    show "populated r \<le> 1"
    proof (cases "ContentType r = MultipartFormData")
      case True
      then have "\<not> BodyIsString r" by (simp add: 1 not_text_MultipartFormData)
      with form show ?thesis by (simp add: populated_def)
    next
      case False
      with ne have "BodyMultipartFormValues r = None" by (simp add: f(5) assms(1))
      with form show ?thesis by (simp add: populated_def)
    qed
  qed
  have 5: "ContentType r = ApplicationXWwwFormUrlencoded \<longrightarrow>
            BodyIsString r \<and> BodyMultipartFormValues r = None
            \<and> (BodyFormValues r \<noteq> None \<longleftrightarrow> fst (r_ParseForm h) = None)"
  proof
    assume eq: "ContentType r = ApplicationXWwwFormUrlencoded"
    have "BodyIsString r" by (simp add: 1 eq text_ApplicationXWwwFormUrlencoded)
    moreover have "BodyMultipartFormValues r = None" by (simp add: f(5) eq assms(1))
    moreover have "BodyFormValues r \<noteq> None \<longleftrightarrow> fst (r_ParseForm h) = None"
      by (cases "r_ParseForm h") (simp add: f(4) eq split: option.splits)
    ultimately show "BodyIsString r \<and> BodyMultipartFormValues r = None
            \<and> (BodyFormValues r \<noteq> None \<longleftrightarrow> fst (r_ParseForm h) = None)" by simp
  qed
  from 1 2 3 4 5 show ?thesis by blast
qed

theorem NewRequest_body_branches_witness:
  "r_MultipartForm json_post = None
   \<and> snapshot_of default_Cfg json_post = Some json_post_snapshot
   \<and> ContentType json_post_snapshot \<noteq> ApplicationXWwwFormUrlencoded
   \<and> populated json_post_snapshot \<le> 1
   \<and> r_MultipartForm form_get = None
   \<and> snapshot_of default_Cfg form_get = Some form_get_snapshot
   \<and> ContentType form_get_snapshot = ApplicationXWwwFormUrlencoded
   \<and> BodyIsString form_get_snapshot \<and> BodyFormValues form_get_snapshot \<noteq> None
   \<and> BodyMultipartFormValues form_get_snapshot = None"
proof -
  have j1: "r_MultipartForm json_post = None"
    by (simp add: json_post_def with_body_def bare_request_def)
  have j2: "snapshot_of default_Cfg json_post = Some json_post_snapshot"
    by (rule snapshot_json_post)
  have j3: "ContentType json_post_snapshot \<noteq> ApplicationXWwwFormUrlencoded"
    by (simp add: json_post_snapshot_def ApplicationXWwwFormUrlencoded_def)
  have g1: "r_MultipartForm form_get = None"
    by (simp add: form_get_def with_body_def bare_request_def)
  have g2: "snapshot_of default_Cfg form_get = Some form_get_snapshot"
    by (rule snapshot_form_get)
  have g3: "ContentType form_get_snapshot = ApplicationXWwwFormUrlencoded"
    by (simp add: form_get_snapshot_def ApplicationXWwwFormUrlencoded_def)
  have g4: "fst (r_ParseForm form_get) = None"
    by (simp add: form_get_def with_body_def bare_request_def)
  from NewRequest_body_branches [OF j1 j2] j3 have "populated json_post_snapshot \<le> 1" by blast
  moreover from NewRequest_body_branches [OF g1 g2] g3 g4
  have "BodyIsString form_get_snapshot \<and> BodyFormValues form_get_snapshot \<noteq> None
      \<and> BodyMultipartFormValues form_get_snapshot = None" by blast
  ultimately show ?thesis using j1 j2 j3 g1 g2 g3 by blast
qed

section \<open>The body block of the report\<close>

text \<open>
  Claim C3 on the code. For the POST of \<open>a=1&a=2&b=x\<close> with content type exactly
  \<open>application/x-www-form-urlencoded\<close>, whatever \<open>ParseForm\<close> answers, the body block of
  the report is the header \<open>Body:\<close> followed by the raw text, not the header
  \<open>Body (Form values):\<close> with one line per pair; and when \<open>ParseForm\<close> answers with the
  mapping \<open>a -> [1,2]\<close>, \<open>b -> [x]\<close>, that mapping is the snapshot's form-value mapping.
\<close>

theorem form_post_prints_raw_body:
  "map_option (printBody Cfg J os) (snapshot_of Cfg (form_post pf))
     = Some [Stdout (''Body:'' @ nl), Stdout (''a=1&a=2&b=x'' @ nl)]
   \<and> map_option BodyFormValues (snapshot_of Cfg (form_post (None, form_a_b)))
     = Some (Some form_a_b)"
  by (simp add: snapshot_form_post printBody_def printBytes_def content_type_defs)

lemma printBody_empty_Body: "Body r = [] \<Longrightarrow> printBody Cfg J os r = []"
  by (simp add: printBody_def)

lemma multipart_upload_no_body:
  assumes "\<not> isStringContentType ct"
  shows "map_option (printBody Cfg J os) (snapshot_of Cfg (multipart_upload ct pm)) = Some []"
proof -
  obtain r where r: "snapshot_of Cfg (multipart_upload ct pm) = Some r"
    using NewRequest_returns_snapshot [of Cfg "multipart_upload ct pm"]
    by (auto simp: snapshot_of_def)
  have "ContentType r = ct"
    by (simp add: snapshot_fields(1) [OF r] multipart_upload_def Header_Get_def)
  with assms have "Body r = []"
    by (simp add: snapshot_fields(3) [OF r])
  with r show ?thesis by (simp add: printBody_empty_Body)
qed

text \<open>
  Claim C4 on the code. For the multipart upload with the field \<open>name=foo\<close> and the
  3,145,728-byte file part \<open>upload\<close>, the report has no body block at all: under the
  content type \<open>multipart/form-data\<close> even when the parser delivers the form, and under
  \<open>multipart/form-data; boundary=XYZ\<close> whatever the parser would answer. The snapshot's
  byte buffer is empty for a content type that is not text-like, and \<open>printBody\<close>
  returns at once on an empty buffer.
\<close>

theorem multipart_upload_prints_no_body:
  "map_option (printBody Cfg J os)
     (snapshot_of Cfg (multipart_upload ''multipart/form-data'' (\<lambda>_. (None, Some upload_form))))
   = Some []
   \<and> map_option (printBody Cfg J os) (snapshot_of Cfg (multipart_upload ''multipart/form-data'' pm))
   = Some []
   \<and> map_option (printBody Cfg J os)
     (snapshot_of Cfg (multipart_upload ''multipart/form-data; boundary=XYZ'' pm))
   = Some []"
proof -
  have 1: "\<not> isStringContentType ''multipart/form-data''"
    by (simp add: content_type_defs)
  have 2: "\<not> isStringContentType ''multipart/form-data; boundary=XYZ''"
    by (simp add: content_type_defs)
  show ?thesis
    by (simp add: multipart_upload_no_body [OF 1] multipart_upload_no_body [OF 2])
qed

text \<open>
  The multipart branch of \<open>printBody\<close> itself prints the field line and the file line
  with \<open>(3.00 MB)\<close>; it is reached only by a snapshot with a non-empty byte buffer that
  is not flagged as a string, which \<open>NewRequest\<close> never builds.
\<close>

lemma printBody_multipart_branch:
  "printBody Cfg J (no_keys\<lparr>value_keys := [''name''], file_keys := [''upload'']\<rparr>)
     \<lparr>Method = ''POST'', Path = ''/submit'', RequestUri = ''/submit'',
      Protocol = ''HTTP/1.1'', Host = ''localhost:3000'',
      RemoteAddress = ''127.0.0.1:50000'', ContentLength = 3146100,
      ContentType = ''multipart/form-data'',
      Headers = fmupd ''Content-Type'' [''multipart/form-data''] fmempty,
      QueryParams = fmempty,
      BasicAuth = \<lparr>username = [], password = [], ok = False\<rparr>,
      BodyIsString = False, BodyParseError = None, Body = ''x'',
      BodyFormValues = None, BodyMultipartFormValues = Some upload_form\<rparr>
   = [Stdout (''Body (Multipart form values):'' @ nl),
      Stdout (tab @ ''name: foo'' @ nl),
      Stdout (tab @ ''upload:'' @ nl),
      Stdout (tab @ tab @ ''upload.bin (3.00 MB)'' @ nl)]"
  by (simp add: print_defs upload_form_def no_keys_def size_MB_3MB enumerate_eq_zip)

text \<open>
  Claim C5 on the code. \<open>printBody\<close> tests \<open>BodyIsString\<close> before \<open>BodyFormValues\<close>: the
  snapshot of \<open>GET /submit?a=1\<close> with body \<open>x=y\<close> has both the raw text buffer and a
  populated form-value mapping, and its body block is the raw text under the header
  \<open>Body:\<close>, not the form values.
\<close>

theorem form_get_prints_raw_body:
  "map_option (\<lambda>r. (BodyIsString r, BodyFormValues r, printBody Cfg J os r))
     (snapshot_of Cfg form_get)
   = Some (True, Some (fmupd ''a'' [''1''] fmempty),
           [Stdout (''Body:'' @ nl), Stdout (''x=y'' @ nl)])"
  by (simp add: snapshot_form_get form_get_snapshot_def printBody_def printBytes_def content_type_defs)

lemma Contains_json_text: "Contains ct ''json'' \<Longrightarrow> isStringContentType ct"
  by (simp add: isStringContentType_def)

text \<open>
  Claim C9. For every snapshot built by \<open>NewRequest\<close> whose body is non-empty and valid
  JSON and whose content type contains \<open>json\<close>, when \<open>ShouldFormatJson\<close> is off the body
  block of the report is the single line \<open>Body (valid json):\<close>: neither the indented
  text nor the raw bytes follow.
\<close>

theorem printBody_valid_json_unformatted:
  assumes "snapshot_of Cfg h = Some r" and "Body r \<noteq> []"
    and "Contains (ContentType r) ''json''" and "Valid J (Body r)"
    and "\<not> ShouldFormatJson Cfg"
  shows "printBody Cfg J os r = [Stdout (''Body (valid json):'' @ nl)]"
proof -
  have "BodyIsString r"
    using snapshot_fields(2) [OF assms(1)] assms(3) by (simp add: Contains_json_text)
  with assms(2-5) show ?thesis by (simp add: printBody_def)
qed

theorem printBody_valid_json_unformatted_witness:
  "snapshot_of (default_Cfg\<lparr>ShouldFormatJson := False\<rparr>) json_post = Some json_post_snapshot
   \<and> Body json_post_snapshot \<noteq> []
   \<and> Contains (ContentType json_post_snapshot) ''json''
   \<and> Valid json_for_1_2 (Body json_post_snapshot)
   \<and> \<not> ShouldFormatJson (default_Cfg\<lparr>ShouldFormatJson := False\<rparr>)
   \<and> printBody (default_Cfg\<lparr>ShouldFormatJson := False\<rparr>) json_for_1_2 no_keys json_post_snapshot
     = [Stdout (''Body (valid json):'' @ nl)]"
proof -
  have 1: "snapshot_of (default_Cfg\<lparr>ShouldFormatJson := False\<rparr>) json_post = Some json_post_snapshot"
    by (rule snapshot_json_post)
  have 2: "Body json_post_snapshot \<noteq> []" by (simp add: json_post_snapshot_def)
  have 3: "Contains (ContentType json_post_snapshot) ''json''"
    by (simp add: json_post_snapshot_def content_type_defs)
  have 4: "Valid json_for_1_2 (Body json_post_snapshot)"
    by (simp add: json_post_snapshot_def json_for_1_2_def)
  have 5: "\<not> ShouldFormatJson (default_Cfg\<lparr>ShouldFormatJson := False\<rparr>)" by simp
  from printBody_valid_json_unformatted [OF 1 2 3 4 5, of no_keys] 1 2 3 4 5
  show ?thesis by blast
qed

lemma printBody_valid_json_formatted_example:
  "printBody default_Cfg json_for_1_2 no_keys json_post_snapshot
   = [Stdout (''Body (valid json):'' @ nl),
      Stdout (''['' @ nl @ ''  1,'' @ nl @ ''  2'' @ nl @ '']'' @ nl)]"
  by (simp add: printBody_def printJsonIndented_def json_post_snapshot_def json_for_1_2_def
      default_Cfg_def content_type_defs)

section \<open>The report\<close>


subsection \<open>The order of the lines\<close>
















section \<open>Validation of the port\<close>

lemma show_int_portMinValue: "show_int portMinValue = ''1024''"
  by (simp add: show_int_def show_nat.simps portMinValue_def)

lemma show_int_portMaxValue: "show_int portMaxValue = ''65535''"
  by (simp add: show_int_def show_nat.simps portMaxValue_def)

text \<open>
  Claim C10. \<open>Validate\<close> accepts a configuration only if its port is strictly greater
  than 1024 and strictly less than 65535; the ports 1024 and 65535 themselves are
  rejected with the message that names the range between 1024 and 65535.
\<close>

theorem Validate_port_range:
  "(Validate avail c = None \<longrightarrow> 1024 < Port c \<and> Port c < 65535) \<and>
   (1024 < Port c \<and> Port c < 65535 \<and> avail (Port c) \<longrightarrow> Validate avail c = None) \<and>
   (Port c = 1024 \<or> Port c = 65535 \<longrightarrow>
      Validate avail c = Some ''expecting port to be in the range between 1024 and 65535'')"
  unfolding Validate_def show_int_portMinValue show_int_portMaxValue
  by (auto simp: isPortInValidRange_def portMinValue_def portMaxValue_def split: if_splits)

theorem Validate_port_range_witness:
  "Validate (\<lambda>_. True) default_Cfg = None
   \<and> 1024 < Port default_Cfg \<and> Port default_Cfg < 65535
   \<and> Validate (\<lambda>_. True) (default_Cfg\<lparr>Port := 1024\<rparr>)
       = Some ''expecting port to be in the range between 1024 and 65535''
   \<and> Validate (\<lambda>_. True) (default_Cfg\<lparr>Port := 65535\<rparr>)
       = Some ''expecting port to be in the range between 1024 and 65535''"
proof -
  have ok: "Validate (\<lambda>_. True) default_Cfg = None"
    by (simp add: Validate_def isPortInValidRange_def default_Cfg_def portDefaultValue_def
        portMinValue_def portMaxValue_def)
  from Validate_port_range [where avail = "\<lambda>_. True" and c = default_Cfg] ok
  have "1024 < Port default_Cfg \<and> Port default_Cfg < 65535" by blast
  moreover from Validate_port_range [where avail = "\<lambda>_. True" and c = "default_Cfg\<lparr>Port := 1024\<rparr>"]
  have "Validate (\<lambda>_. True) (default_Cfg\<lparr>Port := 1024\<rparr>)
       = Some ''expecting port to be in the range between 1024 and 65535''" by simp
  moreover from Validate_port_range [where avail = "\<lambda>_. True" and c = "default_Cfg\<lparr>Port := 65535\<rparr>"]
  have "Validate (\<lambda>_. True) (default_Cfg\<lparr>Port := 65535\<rparr>)
       = Some ''expecting port to be in the range between 1024 and 65535''" by simp
  ultimately show ?thesis using ok by blast
qed

end
